theory Spec2Isabelle
  imports Main "HOL-Library.AList" "HOL-Library.Sublist"
begin

section \<open>The implementors fragment \<^verbatim>\<open>implementors/core_foundation/base/trait.TCFType.js\<close>\<close>

text \<open>
  The source file is one immediately invoked function. It builds the object
  \<^verbatim>\<open>implementors\<close> by three property assignments and then hands it to the page:
  \<^verbatim>\<open>
  (function() {var implementors = {};
  implementors['core_foundation'] = [];implementors['core_graphics'] = [...];implementors['cocoa'] = [...];
      if (window.register_implementors) {
          window.register_implementors(implementors);
      } else {
          window.pending_implementors = implementors;
      }
  })()
  \<close>
\<close>

subsection \<open>The contribution batch\<close>

text \<open>
  A JavaScript object with string keys keeps its own properties in insertion order, so
  it is an association list; \<^verbatim>\<open>obj[k] = v\<close> replaces the value of an existing key in
  place and appends a new key at the end. A record is a rendered string.
\<close>

type_synonym 'r js_object = "(string \<times> 'r) list"

definition assign :: "string \<Rightarrow> 'r \<Rightarrow> 'r js_object \<Rightarrow> 'r js_object" where
  "assign k v obj = AList.update k v obj"

definition get :: "'r js_object \<Rightarrow> string \<Rightarrow> 'r option" where
  "get obj k = map_of obj k"

definition implementors :: "string list js_object" where
  \<open>implementors =
     assign ''cocoa''
       [''impl <a class='trait' href='core_foundation/base/trait.TCFType.html' title='core_foundation::base::TCFType'>TCFType</a>&lt;<a class='primitive' href='https://doc.rust-lang.org/nightly/std/primitive.pointer.html'>*const </a><a class='struct' href='core_graphics/color_space/struct.__CGColorSpace.html' title='core_graphics::color_space::__CGColorSpace'>__CGColorSpace</a>&gt; for <a class='struct' href='core_graphics/color_space/struct.CGColorSpace.html' title='core_graphics::color_space::CGColorSpace'>CGColorSpace</a>'',
        ''impl <a class='trait' href='core_foundation/base/trait.TCFType.html' title='core_foundation::base::TCFType'>TCFType</a>&lt;<a class='primitive' href='https://doc.rust-lang.org/nightly/std/primitive.pointer.html'>*const </a><a class='struct' href='core_graphics/context/struct.__CGContext.html' title='core_graphics::context::__CGContext'>__CGContext</a>&gt; for <a class='struct' href='core_graphics/context/struct.CGContext.html' title='core_graphics::context::CGContext'>CGContext</a>'',
        ''impl <a class='trait' href='core_foundation/base/trait.TCFType.html' title='core_foundation::base::TCFType'>TCFType</a>&lt;<a class='primitive' href='https://doc.rust-lang.org/nightly/std/primitive.pointer.html'>*const </a><a class='struct' href='core_graphics/data_provider/struct.__CGDataProvider.html' title='core_graphics::data_provider::__CGDataProvider'>__CGDataProvider</a>&gt; for <a class='struct' href='core_graphics/data_provider/struct.CGDataProvider.html' title='core_graphics::data_provider::CGDataProvider'>CGDataProvider</a>'',
        ''impl <a class='trait' href='core_foundation/base/trait.TCFType.html' title='core_foundation::base::TCFType'>TCFType</a>&lt;<a class='primitive' href='https://doc.rust-lang.org/nightly/std/primitive.pointer.html'>*const </a><a class='struct' href='core_graphics/font/struct.__CGFont.html' title='core_graphics::font::__CGFont'>__CGFont</a>&gt; for <a class='struct' href='core_graphics/font/struct.CGFont.html' title='core_graphics::font::CGFont'>CGFont</a>'']
     (assign ''core_graphics''
       [''impl <a class='trait' href='core_foundation/base/trait.TCFType.html' title='core_foundation::base::TCFType'>TCFType</a>&lt;<a class='type' href='core_graphics/color_space/type.CGColorSpaceRef.html' title='core_graphics::color_space::CGColorSpaceRef'>CGColorSpaceRef</a>&gt; for <a class='struct' href='core_graphics/color_space/struct.CGColorSpace.html' title='core_graphics::color_space::CGColorSpace'>CGColorSpace</a>'',
        ''impl <a class='trait' href='core_foundation/base/trait.TCFType.html' title='core_foundation::base::TCFType'>TCFType</a>&lt;<a class='type' href='core_graphics/context/type.CGContextRef.html' title='core_graphics::context::CGContextRef'>CGContextRef</a>&gt; for <a class='struct' href='core_graphics/context/struct.CGContext.html' title='core_graphics::context::CGContext'>CGContext</a>'',
        ''impl <a class='trait' href='core_foundation/base/trait.TCFType.html' title='core_foundation::base::TCFType'>TCFType</a>&lt;<a class='type' href='core_graphics/data_provider/type.CGDataProviderRef.html' title='core_graphics::data_provider::CGDataProviderRef'>CGDataProviderRef</a>&gt; for <a class='struct' href='core_graphics/data_provider/struct.CGDataProvider.html' title='core_graphics::data_provider::CGDataProvider'>CGDataProvider</a>'',
        ''impl <a class='trait' href='core_foundation/base/trait.TCFType.html' title='core_foundation::base::TCFType'>TCFType</a>&lt;<a class='type' href='core_graphics/font/type.CGFontRef.html' title='core_graphics::font::CGFontRef'>CGFontRef</a>&gt; for <a class='struct' href='core_graphics/font/struct.CGFont.html' title='core_graphics::font::CGFont'>CGFont</a>'']
     (assign ''core_foundation'' [] []))\<close>

subsection \<open>The page state and the consumer callback\<close>

text \<open>
  The fragment reads and writes two properties of the global \<^verbatim>\<open>window\<close>. The source
  tests \<^verbatim>\<open>window.register_implementors\<close> for truthiness and then calls it, so three
  kinds of value matter: a falsy one (\<^verbatim>\<open>undefined\<close> on a page where nothing set the
  property), a function, and a truthy value that is not a function.
  \<^verbatim>\<open>window.pending_implementors\<close> holds nothing or a batch. Everything else a script
  can reach is the field \<open>page\<close>. The fragment never looks inside the batch, so the
  batch type is a parameter \<open>'b\<close>; \<open>'c\<close> is the type of function references.
\<close>

datatype 'c js_value = Falsy | Function 'c | Not_callable

record ('b, 'c, 'w) window =
  register_implementors :: "'c js_value"
  pending_implementors :: "'b option"
  page :: 'w

text \<open>
  A call either returns or throws; in both cases the writes it made stay. A thrown
  exception propagates to the caller unless the caller catches it, and the fragment has
  no \<^verbatim>\<open>try\<close>. Calling a value that is not a function throws a \<^verbatim>\<open>TypeError\<close>;
  \<open>Thrown e\<close> is any other exception value.
\<close>

datatype 'e js_exception = TypeError | Thrown 'e

datatype ('e, 's) completion = Normal 's | Throw 'e 's

fun state_of :: "('e, 's) completion \<Rightarrow> 's" where
  "state_of (Normal s) = s"
| "state_of (Throw e s) = s"

fun throws :: "('e, 's) completion \<Rightarrow> bool" where
  "throws (Normal s) = False"
| "throws (Throw e s) = True"

text \<open>
  The body of the installed callback is not part of the fragment. It is a parameter
  \<open>invoke\<close>: what calling the function reference \<open>f\<close> with a batch does to the whole
  window, the two registry properties included. The model records each call the
  registry makes as an event, so that how often and with which argument a consumer is
  invoked can be stated whatever the callback's body does.
\<close>

type_synonym ('b, 'c, 'e, 'w) callback =
  "'c \<Rightarrow> 'b \<Rightarrow> ('b, 'c, 'w) window \<Rightarrow> ('e js_exception, ('b, 'c, 'w) window) completion"

datatype ('b, 'c) event = Call (callee: 'c) (arg: 'b)

type_synonym ('b, 'c, 'e, 'w) outcome =
  "('b, 'c) event list \<times> ('e js_exception, ('b, 'c, 'w) window) completion"

subsection \<open>The hand-off of the fragment\<close>

text \<open>
  The conditional at the end of the source file, with the batch as its argument (the
  operation the specification calls \<open>submit\<close>): a truthy \<^verbatim>\<open>window.register_implementors\<close>
  is called with the batch, otherwise the batch is assigned to
  \<^verbatim>\<open>window.pending_implementors\<close>. When the truthy value is not a function the call
  expression itself throws and nothing has been called or written. Nothing is returned.
\<close>

definition submit ::
  "('b, 'c, 'e, 'w) callback \<Rightarrow> 'b \<Rightarrow> ('b, 'c, 'w) window \<Rightarrow> ('b, 'c, 'e, 'w) outcome" where
  "submit invoke batch w =
     (case register_implementors w of
        Function f \<Rightarrow> ([Call f batch], invoke f batch w)
      | Not_callable \<Rightarrow> ([], Throw TypeError w)
      | Falsy \<Rightarrow> ([], Normal (w\<lparr>pending_implementors := Some batch\<rparr>)))"

text \<open>The whole source file: build \<open>implementors\<close>, then hand it off.\<close>

definition trait_TCFType_js ::
  "(string list js_object, 'c, 'e, 'w) callback \<Rightarrow> (string list js_object, 'c, 'w) window
     \<Rightarrow> (string list js_object, 'c, 'e, 'w) outcome" where
  "trait_TCFType_js invoke w = submit invoke implementors w"

text \<open>A freshly loaded page: neither property is set.\<close>

definition fresh :: "'w \<Rightarrow> ('b, 'c, 'w) window" where
  "fresh p = \<lparr>register_implementors = Falsy, pending_implementors = None, page = p\<rparr>"

subsection \<open>Installing a consumer\<close>

text \<open>
  The viewer runtime that sets \<^verbatim>\<open>window.register_implementors\<close> is not among the
  source files. The three definitions of this subsection follow the specification's
  description of its operation \<open>install\<close> instead.
\<close>

text \<open>
  Modelled from the spec: the pending queue that \<open>install\<close> reads (the runtime script is
  missing). The pending state the fragment writes is the single property
  \<^verbatim>\<open>window.pending_implementors\<close>, so the queue holds what that property holds: no
  batch or one.
\<close>

definition pending_queue :: "('b, 'c, 'w) window \<Rightarrow> 'b list" where
  "pending_queue w = (case pending_implementors w of None \<Rightarrow> [] | Some batch \<Rightarrow> [batch])"

text \<open>
  Modelled from the spec: the delivery loop of \<open>install\<close> (the runtime script is
  missing). Section 4.1: "deliver each queued batch to consumer, in original submission
  order"; section 7: a failure of the consumer "propagates to the caller of
  submit/install and is not caught or retried internally", so the loop stops at the
  first call that throws.
\<close>

fun deliver ::
  "('b, 'c, 'e, 'w) callback \<Rightarrow> 'c \<Rightarrow> 'b list \<Rightarrow> ('b, 'c, 'w) window
     \<Rightarrow> ('b, 'c, 'e, 'w) outcome" where
  "deliver invoke consumer [] w = ([], Normal w)"
| "deliver invoke consumer (batch # queue) w =
     (case invoke consumer batch w of
        Throw e w' \<Rightarrow> ([Call consumer batch], Throw e w')
      | Normal w' \<Rightarrow>
          (case deliver invoke consumer queue w' of
             (evs, r) \<Rightarrow> (Call consumer batch # evs, r)))"

text \<open>
  Modelled from the spec: \<open>install\<close> (the runtime script is missing). Section 4.1: "if a
  pending queue is non-empty, deliver each queued batch to consumer, in original
  submission order, then clear the queue; store consumer as the active delivery target
  for all future submit calls". The steps are taken in the order of that sentence; a
  delivery that throws ends the operation before the queue is cleared and the consumer
  stored.
\<close>

definition install ::
  "('b, 'c, 'e, 'w) callback \<Rightarrow> 'c \<Rightarrow> ('b, 'c, 'w) window \<Rightarrow> ('b, 'c, 'e, 'w) outcome" where
  "install invoke consumer w =
     (case deliver invoke consumer (pending_queue w) w of
        (evs, Throw e w') \<Rightarrow> (evs, Throw e w')
      | (evs, Normal w') \<Rightarrow>
          (evs, Normal (w'\<lparr>pending_implementors := None,
                            register_implementors := Function consumer\<rparr>)))"

subsection \<open>Executions\<close>

text \<open>
  An execution is a sequence of operations, each a task of its own that runs to
  completion: a fragment that submits its batch, or the runtime installing a consumer.
  A task that ends by an uncaught exception leaves the window as it was at the throw,
  and the next task starts from there. The events of the tasks are concatenated.
\<close>

datatype ('b, 'c) operation = Submit 'b | Install 'c

fun step ::
  "('b, 'c, 'e, 'w) callback \<Rightarrow> ('b, 'c) operation \<Rightarrow> ('b, 'c, 'w) window
     \<Rightarrow> ('b, 'c, 'e, 'w) outcome" where
  "step invoke (Submit batch) w = submit invoke batch w"
| "step invoke (Install consumer) w = install invoke consumer w"

fun run ::
  "('b, 'c, 'e, 'w) callback \<Rightarrow> ('b, 'c) operation list \<Rightarrow> ('b, 'c, 'w) window
     \<Rightarrow> ('b, 'c) event list \<times> ('b, 'c, 'w) window" where
  "run invoke [] w = ([], w)"
| "run invoke (x # xs) w =
     (case step invoke x w of
        (evs, r) \<Rightarrow>
          (case run invoke xs (state_of r) of
             (evs', w') \<Rightarrow> (evs @ evs', w')))"

fun submitted :: "('b, 'c) operation list \<Rightarrow> 'b list" where
  "submitted [] = []"
| "submitted (Submit batch # xs) = batch # submitted xs"
| "submitted (Install consumer # xs) = submitted xs"



subsection \<open>Assumptions on the environment\<close>

text \<open>
  The specification (section 5) takes the registry state to be "mutated only by submit
  and install; no other component may write it". For a callback this is the frame
  condition \<open>keeps_registry\<close>: whether it returns or throws, its body leaves both
  registry properties of the window as they were. It is not assumed by the model; a
  theorem that needs it says so.
\<close>

definition keeps_registry :: "('b, 'c, 'e, 'w) callback \<Rightarrow> bool" where
  "keeps_registry invoke =
     (\<forall>f batch w.
        register_implementors (state_of (invoke f batch w)) = register_implementors w \<and>
        pending_implementors (state_of (invoke f batch w)) = pending_implementors w)"

text \<open>
  At most one of the two registry properties is set: nothing is pending, or
  \<^verbatim>\<open>window.register_implementors\<close> is still falsy.
\<close>

definition exclusive :: "('b, 'c, 'w) window \<Rightarrow> bool" where
  "exclusive w = (register_implementors w = Falsy \<or> pending_implementors w = None)"

subsection \<open>Example consumers, batches and pages\<close>

text \<open>
  Concrete inputs for the theorems below. \<open>Logger\<close> is the logger \<open>L\<close> of the
  specification's scenarios: it appends the batch it receives to the page's log and
  returns. \<open>Failing\<close> logs the batch and then throws. \<open>lib1\<close> and \<open>lib2\<close> are the
  batches of scenario A.
\<close>

datatype consumer = Logger | Failing

type_synonym batch = "string list js_object"

type_synonym example_window = "(batch, consumer, batch list) window"

definition example_callback :: "(batch, consumer, string, batch list) callback" where
  "example_callback f batch w =
     (case f of
        Logger \<Rightarrow> Normal (w\<lparr>page := page w @ [batch]\<rparr>)
      | Failing \<Rightarrow> Throw (Thrown ''Error'') (w\<lparr>page := page w @ [batch]\<rparr>))"

text \<open>
  A consumer, for any type \<open>'r\<close> of record sequences, that writes down what it finds
  under the key \<open>k\<close> of the batch it receives (nothing if the key is missing).
\<close>

definition key_recorder :: "string \<Rightarrow> ('r js_object, 'c, 'e, 'r option) callback" where
  "key_recorder k f batch w = Normal (w\<lparr>page := get batch k\<rparr>)"

definition lib1 :: batch where
  "lib1 = [(''lib1'', [''r1'', ''r2''])]"

definition lib2 :: batch where
  "lib2 = [(''lib2'', [''r3''])]"

definition logging_page :: example_window where
  "logging_page =
     \<lparr>register_implementors = Function Logger, pending_implementors = None, page = []\<rparr>"

definition failing_page :: example_window where
  "failing_page =
     \<lparr>register_implementors = Function Failing, pending_implementors = None, page = []\<rparr>"

text \<open>
  A batch that is not a mapping from keys to record sequences (the key is bound to a
  number), a page with nothing but the two registry properties, the same page after
  some script has set \<^verbatim>\<open>window.register_implementors = 1\<close>, and a callback that throws
  at once.
\<close>

definition malformed_batch :: "nat js_object" where
  "malformed_batch = [(''lib'', 7)]"

definition bare_page :: "(nat js_object, consumer, unit) window" where
  "bare_page = fresh ()"

definition broken_page :: "(nat js_object, consumer, unit) window" where
  "broken_page = (fresh ())\<lparr>register_implementors := Not_callable\<rparr>"

definition throwing_callback :: "(nat js_object, consumer, string, unit) callback" where
  "throwing_callback f batch w = Throw (Thrown ''Error'') w"

section \<open>Properties\<close>

subsection \<open>The branches of the hand-off\<close>

lemma submit_awaiting:
  "register_implementors w = Falsy \<Longrightarrow>
     submit invoke batch w = ([], Normal (w\<lparr>pending_implementors := Some batch\<rparr>))"
  by (simp add: submit_def)

lemma submit_installed:
  "register_implementors w = Function f \<Longrightarrow>
     submit invoke batch w = ([Call f batch], invoke f batch w)"
  by (simp add: submit_def)

lemma submit_not_callable:
  "register_implementors w = Not_callable \<Longrightarrow> submit invoke batch w = ([], Throw TypeError w)"
  by (simp add: submit_def)

lemma example_callback_Logger:
  "example_callback Logger batch w = Normal (w\<lparr>page := page w @ [batch]\<rparr>)"
  by (simp add: example_callback_def)

lemma example_callback_Failing:
  "example_callback Failing batch w =
     Throw (Thrown ''Error'') (w\<lparr>page := page w @ [batch]\<rparr>)"
  by (simp add: example_callback_def)

lemma install_empty:
  "pending_implementors w = None \<Longrightarrow>
     install invoke f w =
       ([], Normal (w\<lparr>pending_implementors := None, register_implementors := Function f\<rparr>))"
  by (simp add: install_def pending_queue_def)

lemma install_pending:
  "pending_implementors w = Some batch \<Longrightarrow>
     install invoke f w =
       (case invoke f batch w of
          Throw e w' \<Rightarrow> ([Call f batch], Throw e w')
        | Normal w' \<Rightarrow>
            ([Call f batch],
             Normal (w'\<lparr>pending_implementors := None, register_implementors := Function f\<rparr>)))"
  by (simp add: install_def pending_queue_def split: completion.splits)

subsection \<open>Executions, step by step\<close>

lemma run_Cons_state:
  "snd (run invoke (x # xs) w) = snd (run invoke xs (state_of (snd (step invoke x w))))"
  by (simp split: prod.splits)

lemma run_Cons_events:
  "fst (run invoke (x # xs) w) =
     fst (step invoke x w) @ fst (run invoke xs (state_of (snd (step invoke x w))))"
  by (simp split: prod.splits)

lemma run_append_state:
  "snd (run invoke (xs @ ys) w) = snd (run invoke ys (snd (run invoke xs w)))"
  by (induction xs arbitrary: w) (simp_all add: run_Cons_state del: run.simps(2))

lemma run_append_events:
  "fst (run invoke (xs @ ys) w) =
     fst (run invoke xs w) @ fst (run invoke ys (snd (run invoke xs w)))"
  by (induction xs arbitrary: w)
     (simp_all add: run_Cons_state run_Cons_events del: run.simps(2))


lemma submitted_append: "submitted (xs @ ys) = submitted xs @ submitted ys"
  by (induction xs rule: submitted.induct) simp_all









text \<open>
  Submissions while no consumer is installed: no call is made and only the last batch
  is left in the pending property.
\<close>

lemma run_submits_awaiting:
  "register_implementors w = Falsy \<Longrightarrow>
     run invoke (map Submit bs) w =
       ([], if bs = [] then w else w\<lparr>pending_implementors := Some (last bs)\<rparr>)"
proof (induction bs arbitrary: w)
  case Nil
  then show ?case by simp
next
  case (Cons b bs)
  have "register_implementors (w\<lparr>pending_implementors := Some b\<rparr>) = Falsy"
    using Cons.prems by simp
  from Cons.IH [OF this] Cons.prems show ?case
    by (simp add: submit_awaiting)
qed



text \<open>The example callback satisfies the assumption it is used with.\<close>

lemma keeps_registry_example_callback: "keeps_registry example_callback"
  by (simp add: keeps_registry_def example_callback_def split: consumer.splits)

subsection \<open>The batch of this fragment\<close>

text \<open>
  Claim C10. The batch this fragment submits has exactly three subject keys, in the
  order of the assignments: \<open>core_foundation\<close> with an empty record sequence,
  \<open>core_graphics\<close> with four records and \<open>cocoa\<close> with four records. The batch with
  its empty sequence is accepted by the hand-off as it is: on a fresh page the fragment
  completes normally and leaves the batch in \<^verbatim>\<open>window.pending_implementors\<close>, and on
  a page with a consumer \<open>f\<close> installed it calls \<open>f\<close> once with the batch.
\<close>

theorem fragment_batch_shape:
  "map fst implementors = [''core_foundation'', ''core_graphics'', ''cocoa''] \<and>
   get implementors ''core_foundation'' = Some [] \<and>
   map_option length (get implementors ''core_graphics'') = Some 4 \<and>
   map_option length (get implementors ''cocoa'') = Some 4 \<and>
   trait_TCFType_js invoke (fresh p) =
     ([], Normal ((fresh p)\<lparr>pending_implementors := Some implementors\<rparr>)) \<and>
   trait_TCFType_js invoke ((fresh p)\<lparr>register_implementors := Function f\<rparr>) =
     ([Call f implementors],
      invoke f implementors ((fresh p)\<lparr>register_implementors := Function f\<rparr>))"
proof -
  have keys: "map fst implementors = [''core_foundation'', ''core_graphics'', ''cocoa'']"
    by (simp add: implementors_def assign_def)
  have cf: "get implementors ''core_foundation'' = Some []"
    by (simp add: implementors_def assign_def get_def)
  have cg: "map_option length (get implementors ''core_graphics'') = Some 4"
    by (simp add: implementors_def assign_def get_def)
  have co: "map_option length (get implementors ''cocoa'') = Some 4"
    by (simp add: implementors_def assign_def get_def)
  have aw: "trait_TCFType_js invoke (fresh p) =
     ([], Normal ((fresh p)\<lparr>pending_implementors := Some implementors\<rparr>))"
    by (simp add: trait_TCFType_js_def submit_def fresh_def)
  have ins: "trait_TCFType_js invoke ((fresh p)\<lparr>register_implementors := Function f\<rparr>) =
     ([Call f implementors],
      invoke f implementors ((fresh p)\<lparr>register_implementors := Function f\<rparr>))"
    by (simp add: trait_TCFType_js_def submit_def fresh_def)
  from keys cf cg co aw ins show ?thesis by (intro conjI)
qed

subsection \<open>Submitting while a consumer is installed\<close>

text \<open>
  Claim C2. When a consumer \<open>f\<close> is installed, the hand-off calls it within the same
  step, once (its events are the single call \<open>Call f batch\<close>), with the submitted batch
  itself. It buffers nothing: the outcome is the outcome of that one call, so the
  window after the hand-off is the window the callback left, and the pending property
  in particular is what the callback left.
\<close>

theorem submit_invokes_installed_consumer_once:
  assumes "register_implementors w = Function f"
  shows "submit invoke batch w = ([Call f batch], invoke f batch w) \<and>
         pending_implementors (state_of (snd (submit invoke batch w))) =
           pending_implementors (state_of (invoke f batch w))"
  using assms by (simp add: submit_installed)

theorem submit_invokes_installed_consumer_once_witness:
  "register_implementors logging_page = Function Logger \<and>
   submit example_callback lib1 logging_page =
     ([Call Logger lib1], Normal (logging_page\<lparr>page := [lib1]\<rparr>)) \<and>
   pending_implementors (state_of (snd (submit example_callback lib1 logging_page))) = None"
proof -
  have h: "register_implementors logging_page = Function Logger"
    by (simp add: logging_page_def)
  have c: "example_callback Logger lib1 logging_page = Normal (logging_page\<lparr>page := [lib1]\<rparr>)"
    by (simp add: example_callback_Logger logging_page_def)
  have p: "pending_implementors (logging_page\<lparr>page := [lib1]\<rparr>) = None"
    by (simp add: logging_page_def)
  from submit_invokes_installed_consumer_once [OF h, of example_callback lib1] h c p
  show ?thesis by simp
qed

subsection \<open>Submitting while no consumer is installed\<close>

text \<open>
  Claim C8. When no consumer is installed, the hand-off emits no call and completes
  normally, and afterwards \<^verbatim>\<open>window.pending_implementors\<close> is the batch just
  submitted, whatever it held before. The property holds one batch: a later submission
  replaces an earlier undelivered one, so the window after submitting \<open>earlier\<close> and
  then \<open>batch\<close> is the window after submitting \<open>batch\<close> alone.
\<close>

theorem submit_replaces_pending:
  assumes "register_implementors w = Falsy"
  shows "submit invoke batch w = ([], Normal (w\<lparr>pending_implementors := Some batch\<rparr>)) \<and>
         pending_implementors (state_of (snd (submit invoke batch w))) = Some batch \<and>
         run invoke [Submit earlier, Submit batch] w = run invoke [Submit batch] w"
  using assms by (simp add: submit_awaiting)

theorem submit_replaces_pending_witness:
  "register_implementors ((fresh [] :: example_window)\<lparr>pending_implementors := Some lib1\<rparr>) =
     Falsy \<and>
   pending_implementors (state_of (snd (submit example_callback lib2
      ((fresh [])\<lparr>pending_implementors := Some lib1\<rparr>)))) = Some lib2 \<and>
   snd (run example_callback [Submit lib1, Submit lib2] (fresh [])) =
     (fresh [])\<lparr>pending_implementors := Some lib2\<rparr>"
proof -
  have h1: "register_implementors
      ((fresh [] :: example_window)\<lparr>pending_implementors := Some lib1\<rparr>) = Falsy"
    by (simp add: fresh_def)
  have h2: "register_implementors (fresh [] :: example_window) = Falsy"
    by (simp add: fresh_def)
  from submit_replaces_pending [OF h1, of example_callback lib2]
       submit_replaces_pending [OF h2, of example_callback lib2 lib1] h1 h2
  show ?thesis by (simp add: submit_awaiting)
qed

subsection \<open>When the hand-off fails\<close>

text \<open>
  Claim C6, as amended. The hand-off takes a batch of any type, never inspects it and
  returns nothing (its outcome is its events and the window). Whether it fails does not
  depend on the batch but on \<^verbatim>\<open>window.register_implementors\<close>. When that is falsy,
  the hand-off stores the batch and completes normally. When it is a function, the
  hand-off ends as the call of that function ends: it fails exactly when the call
  throws. When it is a truthy value that is not a function, the hand-off fails with the
  \<^verbatim>\<open>TypeError\<close> of its own call expression, having called and written nothing.
\<close>

theorem submit_failure_cases:
  "(register_implementors w = Falsy \<longrightarrow>
      submit invoke batch w = ([], Normal (w\<lparr>pending_implementors := Some batch\<rparr>))) \<and>
   (register_implementors w = Function f \<longrightarrow> snd (submit invoke batch w) = invoke f batch w) \<and>
   (register_implementors w = Not_callable \<longrightarrow>
      submit invoke batch w = ([], Throw TypeError w)) \<and>
   throws (snd (submit invoke batch w)) =
     (register_implementors w = Not_callable \<or>
      (\<exists>g. register_implementors w = Function g \<and> throws (invoke g batch w)))"
  by (cases "register_implementors w")
     (simp_all add: submit_awaiting submit_installed submit_not_callable)

theorem submit_failure_cases_witness:
  "register_implementors bare_page = Falsy \<and>
   submit throwing_callback malformed_batch bare_page =
     ([], Normal (bare_page\<lparr>pending_implementors := Some malformed_batch\<rparr>)) \<and>
   \<not> throws (snd (submit throwing_callback malformed_batch bare_page)) \<and>
   register_implementors logging_page = Function Logger \<and>
   snd (submit example_callback lib1 logging_page) = Normal (logging_page\<lparr>page := [lib1]\<rparr>) \<and>
   register_implementors broken_page = Not_callable \<and>
   submit throwing_callback malformed_batch broken_page = ([], Throw TypeError broken_page)"
proof -
  have h1: "register_implementors bare_page = Falsy"
    by (simp add: bare_page_def fresh_def)
  have h2: "register_implementors logging_page = Function Logger"
    by (simp add: logging_page_def)
  have h3: "register_implementors broken_page = Not_callable"
    by (simp add: broken_page_def)
  have c: "example_callback Logger lib1 logging_page = Normal (logging_page\<lparr>page := [lib1]\<rparr>)"
    by (simp add: example_callback_Logger logging_page_def)
  from submit_failure_cases [of bare_page throwing_callback malformed_batch Logger]
       submit_failure_cases [of logging_page example_callback lib1 Logger]
       submit_failure_cases [of broken_page throwing_callback malformed_batch Logger]
       h1 h2 h3 c
  show ?thesis by simp
qed

text \<open>
  The claim as the specification states it (the hand-off completes without failing for
  every batch, and no error is raised by the registry itself) fails on two pages. With
  the consumer \<open>Failing\<close> installed the hand-off of the well-formed batch \<open>lib1\<close> ends by
  the consumer's exception. On a page where \<^verbatim>\<open>window.register_implementors\<close> is truthy
  and not a function, the hand-off ends by a \<^verbatim>\<open>TypeError\<close> that no consumer raised:
  no call was made.
\<close>

theorem submit_fails_on_some_pages:
  "submit example_callback lib1 failing_page =
     ([Call Failing lib1], Throw (Thrown ''Error'') (failing_page\<lparr>page := [lib1]\<rparr>)) \<and>
   throws (snd (submit example_callback lib1 failing_page)) \<and>
   submit throwing_callback malformed_batch broken_page = ([], Throw TypeError broken_page) \<and>
   throws (snd (submit throwing_callback malformed_batch broken_page))"
  by (simp add: submit_def failing_page_def broken_page_def example_callback_def)

subsection \<open>A failing consumer\<close>

text \<open>
  Claim C7. The hand-off has no handler around the call of the consumer. When that call
  throws \<open>e\<close> and leaves the window \<open>w'\<close>, the hand-off made that one call (no retry),
  ends by the same exception \<open>e\<close>, and the window is \<open>w'\<close>, as the consumer left it at
  the throw. The same holds for \<open>install\<close> when the delivery of the pending batch
  throws: the consumer is not stored and the pending batch is not cleared.
\<close>

theorem consumer_failure_propagates:
  "(register_implementors w = Function f \<and> invoke f batch w = Throw e w' \<longrightarrow>
      submit invoke batch w = ([Call f batch], Throw e w')) \<and>
   (pending_implementors w = Some batch \<and> invoke f batch w = Throw e w' \<longrightarrow>
      install invoke f w = ([Call f batch], Throw e w'))"
  by (simp add: submit_installed install_pending)

theorem consumer_failure_propagates_witness:
  "register_implementors failing_page = Function Failing \<and>
   example_callback Failing lib1 failing_page =
     Throw (Thrown ''Error'') (failing_page\<lparr>page := [lib1]\<rparr>) \<and>
   submit example_callback lib1 failing_page =
     ([Call Failing lib1], Throw (Thrown ''Error'') (failing_page\<lparr>page := [lib1]\<rparr>)) \<and>
   pending_implementors ((fresh [] :: example_window)\<lparr>pending_implementors := Some lib1\<rparr>) =
     Some lib1 \<and>
   install example_callback Failing ((fresh [])\<lparr>pending_implementors := Some lib1\<rparr>) =
     ([Call Failing lib1],
      Throw (Thrown ''Error'') ((fresh [])\<lparr>pending_implementors := Some lib1, page := [lib1]\<rparr>))"
proof -
  have r: "register_implementors failing_page = Function Failing"
    by (simp add: failing_page_def)
  have c: "example_callback Failing lib1 failing_page =
      Throw (Thrown ''Error'') (failing_page\<lparr>page := [lib1]\<rparr>)"
    by (simp add: example_callback_Failing failing_page_def)
  have p: "pending_implementors
      ((fresh [] :: example_window)\<lparr>pending_implementors := Some lib1\<rparr>) = Some lib1"
    by simp
  have d: "example_callback Failing lib1 ((fresh [])\<lparr>pending_implementors := Some lib1\<rparr>) =
      Throw (Thrown ''Error'') ((fresh [])\<lparr>pending_implementors := Some lib1, page := [lib1]\<rparr>)"
    by (simp add: example_callback_Failing fresh_def)
  from consumer_failure_propagates
         [of failing_page Failing example_callback lib1 "Thrown ''Error''"
             "failing_page\<lparr>page := [lib1]\<rparr>"]
       consumer_failure_propagates
         [of "(fresh [])\<lparr>pending_implementors := Some lib1\<rparr>" Failing example_callback lib1
             "Thrown ''Error''"
             "(fresh [])\<lparr>pending_implementors := Some lib1, page := [lib1]\<rparr>"]
       r c p d
  show ?thesis by simp
qed

subsection \<open>What the hand-off leaves alone\<close>

lemma submit_register_frame:
  "keeps_registry invoke \<Longrightarrow>
     register_implementors (state_of (snd (submit invoke batch w))) = register_implementors w"
  by (cases "register_implementors w")
     (simp_all add: submit_awaiting submit_installed submit_not_callable keeps_registry_def)

lemma run_submits_register_frame:
  "keeps_registry invoke \<Longrightarrow>
     register_implementors (snd (run invoke (map Submit bs) w)) = register_implementors w"
proof (induction bs arbitrary: w)
  case Nil
  then show ?case by simp
next
  case (Cons b bs)
  have "register_implementors (snd (run invoke (map Submit bs) (state_of (snd (submit invoke b w)))))
          = register_implementors (state_of (snd (submit invoke b w)))"
    using Cons.prems by (rule Cons.IH)
  also have "\<dots> = register_implementors w"
    using Cons.prems by (rule submit_register_frame)
  finally show ?case
    by (simp add: run_Cons_state del: run.simps(2))
qed

text \<open>
  Claim C9. The hand-off reads \<^verbatim>\<open>window.register_implementors\<close> and never assigns
  it: after a submission, and after any number of submissions, the consumer that was
  installed before, or the absence of one, is what is installed. The only other code
  that runs during a submission is the body of the consumer, which the specification
  (section 5) takes not to write the registry state; that is the hypothesis.
\<close>

theorem submit_leaves_register_implementors:
  assumes "keeps_registry invoke"
  shows "register_implementors (state_of (snd (submit invoke batch w))) =
           register_implementors w \<and>
         register_implementors (snd (run invoke (map Submit bs) w)) = register_implementors w"
  using assms by (simp add: submit_register_frame run_submits_register_frame)

theorem submit_leaves_register_implementors_witness:
  "keeps_registry example_callback \<and>
   register_implementors (state_of (snd (submit example_callback lib1 logging_page))) =
     Function Logger \<and>
   register_implementors (state_of (snd (submit example_callback lib1 (fresh [])))) = Falsy \<and>
   register_implementors (snd (run example_callback [Submit lib1, Submit lib2] failing_page)) =
     Function Failing"
proof -
  have r1: "register_implementors logging_page = Function Logger"
    by (simp add: logging_page_def)
  have r2: "register_implementors (fresh [] :: example_window) = Falsy"
    by (simp add: fresh_def)
  have r3: "register_implementors failing_page = Function Failing"
    by (simp add: failing_page_def)
  from submit_leaves_register_implementors
         [OF keeps_registry_example_callback, of lib1 logging_page "[]"]
       submit_leaves_register_implementors
         [OF keeps_registry_example_callback, of lib1 "fresh []" "[]"]
       submit_leaves_register_implementors
         [OF keeps_registry_example_callback, of lib1 failing_page "[lib1, lib2]"]
       keeps_registry_example_callback r1 r2 r3
  show ?thesis by simp
qed

text \<open>
  Claim C4. The hand-off passes the batch on as it received it. With a consumer
  installed, the whole outcome is the outcome of calling that consumer with the
  submitted batch: what the consumer receives is the batch itself, so a consumer that
  writes down the record sequence it finds under a key \<open>k\<close> writes down the sequence
  the submitted batch has under \<open>k\<close> (same values, same order; nothing if the batch
  lacks the key). With no consumer, the submitted batch is what the pending property
  holds. Every call the hand-off makes has, under each key, the record sequence of the
  submitted batch. The type of the record sequences is a parameter: the hand-off cannot
  look at them.
\<close>

theorem submit_passes_batch_unchanged:
  fixes batch :: "'r js_object"
  shows "(register_implementors w = Function f \<longrightarrow>
            submit invoke batch w = ([Call f batch], invoke f batch w)) \<and>
         (register_implementors v = Function f \<longrightarrow>
            state_of (snd (submit (key_recorder k) batch v)) = v\<lparr>page := get batch k\<rparr>) \<and>
         (register_implementors w = Falsy \<longrightarrow>
            submit invoke batch w = ([], Normal (w\<lparr>pending_implementors := Some batch\<rparr>))) \<and>
         (\<forall>ev \<in> set (fst (submit invoke batch w)). \<forall>k. get (arg ev) k = get batch k)"
  by (cases "register_implementors w")
     (simp_all add: submit_awaiting submit_installed submit_not_callable key_recorder_def)

theorem submit_passes_batch_unchanged_witness:
  "register_implementors logging_page = Function Logger \<and>
   submit example_callback lib1 logging_page =
     ([Call Logger lib1], Normal (logging_page\<lparr>page := [lib1]\<rparr>)) \<and>
   get (hd (page (state_of (snd (submit example_callback lib1 logging_page))))) ''lib1'' =
     Some [''r1'', ''r2''] \<and>
   page (state_of (snd (submit
      (key_recorder ''lib1'' :: (batch, consumer, string, string list option) callback) lib1
      ((fresh None)\<lparr>register_implementors := Function Logger\<rparr>)))) = Some [''r1'', ''r2''] \<and>
   register_implementors (fresh [] :: example_window) = Falsy \<and>
   pending_implementors (state_of (snd (submit example_callback implementors (fresh [])))) =
     Some implementors"
proof -
  have r1: "register_implementors logging_page = Function Logger"
    by (simp add: logging_page_def)
  have r2: "register_implementors (fresh [] :: example_window) = Falsy"
    by (simp add: fresh_def)
  have r3: "register_implementors ((fresh None)\<lparr>register_implementors := Function Logger\<rparr>) =
      Function Logger"
    by simp
  have c: "example_callback Logger lib1 logging_page = Normal (logging_page\<lparr>page := [lib1]\<rparr>)"
    by (simp add: example_callback_Logger logging_page_def)
  have g: "get lib1 ''lib1'' = Some [''r1'', ''r2'']"
    by (simp add: get_def lib1_def)
  note t1 = submit_passes_batch_unchanged
         [where w = logging_page and f = Logger and invoke = example_callback and batch = lib1
            and v = "(fresh None)\<lparr>register_implementors := Function Logger\<rparr>" and k = "''lib1''"]
  note t2 = submit_passes_batch_unchanged
         [where w = "fresh [] :: example_window" and f = Logger and invoke = example_callback
            and batch = implementors
            and v = "(fresh None)\<lparr>register_implementors := Function Logger\<rparr>" and k = "''lib1''"]
  have a: "submit example_callback lib1 logging_page =
      ([Call Logger lib1], example_callback Logger lib1 logging_page)"
    using t1 r1 by blast
  have b: "state_of (snd (submit
      (key_recorder ''lib1'' :: (batch, consumer, string, string list option) callback) lib1
      ((fresh None)\<lparr>register_implementors := Function Logger\<rparr>))) =
      (fresh None)\<lparr>register_implementors := Function Logger, page := get lib1 ''lib1''\<rparr>"
    using t1 r3 by blast
  have d: "submit example_callback implementors (fresh []) =
      ([], Normal ((fresh [])\<lparr>pending_implementors := Some implementors\<rparr>))"
    using t2 r2 by blast
  from a b d r1 r2 c g show ?thesis by simp
qed

subsection \<open>The registry state over an execution\<close>

lemma step_exclusive:
  assumes "keeps_registry invoke" "exclusive w"
  shows "exclusive (state_of (snd (step invoke x w)))"
proof (cases x)
  case (Submit batch)
  show ?thesis
  proof (cases "register_implementors w")
    case Falsy
    then show ?thesis using Submit by (simp add: submit_awaiting exclusive_def)
  next
    case (Function f)
    then show ?thesis using Submit assms
      by (simp add: submit_installed exclusive_def keeps_registry_def)
  next
    case Not_callable
    then show ?thesis using Submit assms(2) by (simp add: submit_not_callable)
  qed
next
  case (Install f)
  show ?thesis
  proof (cases "pending_implementors w")
    case None
    then show ?thesis using Install by (simp add: install_empty exclusive_def)
  next
    case (Some batch)
    show ?thesis
    proof (cases "invoke f batch w")
      case (Normal w')
      then show ?thesis using Install Some by (simp add: install_pending exclusive_def)
    next
      case (Throw e w')
      have "register_implementors (state_of (invoke f batch w)) = register_implementors w"
        and "pending_implementors (state_of (invoke f batch w)) = pending_implementors w"
        using assms(1) by (simp_all add: keeps_registry_def)
      then show ?thesis using Install Some Throw assms(2)
        by (simp add: install_pending exclusive_def)
    qed
  qed
qed

lemma run_exclusive:
  "keeps_registry invoke \<Longrightarrow> exclusive w \<Longrightarrow> exclusive (snd (run invoke ops w))"
proof (induction ops arbitrary: w)
  case Nil
  then show ?case by simp
next
  case (Cons x xs)
  have "exclusive (state_of (snd (step invoke x w)))"
    using Cons.prems by (rule step_exclusive)
  from Cons.IH [OF Cons.prems(1) this] show ?case
    by (simp add: run_Cons_state del: run.simps)
qed

lemma install_register:
  assumes "keeps_registry invoke"
  shows "register_implementors (state_of (snd (install invoke g w))) = Function g \<or>
         register_implementors (state_of (snd (install invoke g w))) = register_implementors w"
proof (cases "pending_implementors w")
  case None
  then show ?thesis by (simp add: install_empty)
next
  case (Some batch)
  have "register_implementors (state_of (invoke g batch w)) = register_implementors w"
    using assms by (simp add: keeps_registry_def)
  then show ?thesis using Some
    by (cases "invoke g batch w") (simp_all add: install_pending)
qed

lemma step_installed:
  assumes "keeps_registry invoke" "register_implementors w = Function f"
  shows "\<exists>g. register_implementors (state_of (snd (step invoke x w))) = Function g"
proof (cases x)
  case (Submit batch)
  then show ?thesis using assms
    by (simp add: submit_installed keeps_registry_def)
next
  case (Install g)
  then show ?thesis using install_register [OF assms(1), of g w] assms(2)
    by auto
qed

lemma run_installed:
  "keeps_registry invoke \<Longrightarrow> register_implementors w = Function f \<Longrightarrow>
     \<exists>g. register_implementors (snd (run invoke ops w)) = Function g"
proof (induction ops arbitrary: w f)
  case Nil
  then show ?case by simp
next
  case (Cons x xs)
  obtain g where "register_implementors (state_of (snd (step invoke x w))) = Function g"
    using step_installed [OF Cons.prems] by blast
  from Cons.IH [OF Cons.prems(1) this] show ?case
    by (simp add: run_Cons_state del: run.simps)
qed

lemma step_truthy:
  assumes "keeps_registry invoke" "register_implementors w \<noteq> Falsy"
  shows "register_implementors (state_of (snd (step invoke x w))) \<noteq> Falsy"
proof (cases x)
  case (Submit batch)
  then show ?thesis using assms submit_register_frame [OF assms(1), of batch w]
    by simp
next
  case (Install g)
  then show ?thesis using install_register [OF assms(1), of g w] assms(2)
    by auto
qed

lemma run_truthy:
  "keeps_registry invoke \<Longrightarrow> register_implementors w \<noteq> Falsy \<Longrightarrow>
     register_implementors (snd (run invoke ops w)) \<noteq> Falsy"
proof (induction ops arbitrary: w)
  case Nil
  then show ?case by simp
next
  case (Cons x xs)
  have "register_implementors (state_of (snd (step invoke x w))) \<noteq> Falsy"
    using Cons.prems by (rule step_truthy)
  from Cons.IH [OF Cons.prems(1) this] show ?case
    by (simp add: run_Cons_state del: run.simps)
qed

text \<open>
  Claim C5. For callbacks that leave the registry properties alone, in every state an
  execution reaches from a fresh page at most one of the two properties is set: a
  pending batch or an installed consumer, never both. The passage is one-way: once a
  consumer is installed, a consumer stays installed whatever operations follow (and
  \<^verbatim>\<open>window.register_implementors\<close>, once truthy, stays truthy), and with nothing
  pending at that point the pending property stays unset, so nothing is buffered again.
  This holds also for executions in which a consumer throws.
\<close>

theorem registry_state_exclusive_and_one_way:
  assumes "keeps_registry invoke"
  shows "exclusive (snd (run invoke ops (fresh p))) \<and>
         (register_implementors w = Function f \<longrightarrow>
            (\<exists>g. register_implementors (snd (run invoke ops w)) = Function g)) \<and>
         (register_implementors w \<noteq> Falsy \<longrightarrow>
            register_implementors (snd (run invoke ops w)) \<noteq> Falsy) \<and>
         (register_implementors w \<noteq> Falsy \<and> pending_implementors w = None \<longrightarrow>
            pending_implementors (snd (run invoke ops w)) = None)"
proof (intro conjI impI)
  have "exclusive (fresh p)"
    by (simp add: exclusive_def fresh_def)
  with assms show "exclusive (snd (run invoke ops (fresh p)))"
    by (rule run_exclusive)
next
  assume "register_implementors w = Function f"
  with assms show "\<exists>g. register_implementors (snd (run invoke ops w)) = Function g"
    by (rule run_installed)
next
  assume "register_implementors w \<noteq> Falsy"
  with assms show "register_implementors (snd (run invoke ops w)) \<noteq> Falsy"
    by (rule run_truthy)
next
  assume a: "register_implementors w \<noteq> Falsy \<and> pending_implementors w = None"
  then have "exclusive w" by (simp add: exclusive_def)
  with assms have "exclusive (snd (run invoke ops w))" by (rule run_exclusive)
  moreover have "register_implementors (snd (run invoke ops w)) \<noteq> Falsy"
    using assms a by (simp add: run_truthy)
  ultimately show "pending_implementors (snd (run invoke ops w)) = None"
    by (simp add: exclusive_def)
qed

theorem registry_state_exclusive_and_one_way_witness:
  "keeps_registry example_callback \<and>
   exclusive (snd (run example_callback
      [Submit lib1, Install Failing, Install Logger, Submit lib2] (fresh []))) \<and>
   register_implementors logging_page = Function Logger \<and>
   pending_implementors logging_page = None \<and>
   register_implementors (snd (run example_callback [Submit lib1, Install Failing] logging_page)) =
     Function Failing \<and>
   pending_implementors (snd (run example_callback [Submit lib1, Install Failing] logging_page)) =
     None"
proof -
  have r: "register_implementors logging_page = Function Logger"
    and q: "pending_implementors logging_page = None"
    by (simp_all add: logging_page_def)
  have e: "register_implementors
      (snd (run example_callback [Submit lib1, Install Failing] logging_page)) = Function Failing"
    by (simp add: submit_def install_def pending_queue_def logging_page_def
          example_callback_def)
  from registry_state_exclusive_and_one_way
         [OF keeps_registry_example_callback,
          of "[Submit lib1, Install Failing, Install Logger, Submit lib2]" "[]" logging_page
             Logger]
       registry_state_exclusive_and_one_way
         [OF keeps_registry_example_callback,
          of "[Submit lib1, Install Failing]" "[]" logging_page Logger]
       keeps_registry_example_callback r q e
  show ?thesis by simp
qed

subsection \<open>What an installed consumer receives\<close>

text \<open>
  Claim C1, as amended. The pending state is the single property
  \<^verbatim>\<open>window.pending_implementors\<close>, which each submission overwrites. Of two batches
  \<open>b1\<close>, \<open>b2\<close> submitted in that order while no consumer is installed, only \<open>b2\<close> is
  pending afterwards, and a following \<open>install\<close> calls the consumer exactly once, with
  \<open>b2\<close>. A batch submitted alone before the installation is delivered by \<open>install\<close>
  exactly once.
\<close>

theorem install_delivers_only_last_pending:
  assumes "register_implementors w = Falsy"
  shows "pending_implementors (snd (run invoke [Submit b1, Submit b2] w)) = Some b2 \<and>
         fst (run invoke [Submit b1, Submit b2, Install f] w) = [Call f b2] \<and>
         fst (run invoke [Submit b1, Install f] w) = [Call f b1]"
proof -
  have two: "run invoke [Submit b1, Submit b2] w = ([], w\<lparr>pending_implementors := Some b2\<rparr>)"
    using run_submits_awaiting [OF assms, of invoke "[b1, b2]"] by simp
  have one: "run invoke [Submit b1] w = ([], w\<lparr>pending_implementors := Some b1\<rparr>)"
    using run_submits_awaiting [OF assms, of invoke "[b1]"] by simp
  have ev: "fst (run invoke [Install f] v) = map (Call f) (pending_queue v)" for v
    by (cases "pending_implementors v"; cases "invoke f (the (pending_implementors v)) v")
       (simp_all add: install_empty install_pending pending_queue_def)
  have "fst (run invoke ([Submit b1, Submit b2] @ [Install f]) w) = [Call f b2]"
    unfolding run_append_events two by (simp only: ev fst_conv snd_conv) (simp add: pending_queue_def)
  moreover have "fst (run invoke ([Submit b1] @ [Install f]) w) = [Call f b1]"
    unfolding run_append_events one by (simp only: ev fst_conv snd_conv) (simp add: pending_queue_def)
  ultimately show ?thesis using two by simp
qed

theorem install_delivers_only_last_pending_witness:
  "register_implementors (fresh [] :: example_window) = Falsy \<and>
   pending_implementors (snd (run example_callback [Submit lib1, Submit lib2] (fresh []))) = Some lib2 \<and>
   fst (run example_callback [Submit lib1, Submit lib2, Install Logger] (fresh [])) = [Call Logger lib2] \<and>
   fst (run example_callback [Submit lib1, Install Logger] (fresh [])) = [Call Logger lib1]"
proof -
  have h: "register_implementors (fresh [] :: example_window) = Falsy"
    by (simp add: fresh_def)
  from install_delivers_only_last_pending [OF h, of example_callback lib1 lib2 Logger] h
  show ?thesis by simp
qed

text \<open>
  The claim as the specification states it (the consumer is called with \<open>b1\<close> and then
  with \<open>b2\<close>, and no batch is dropped from the pending state) fails in scenario A of
  the specification: after the two submissions the pending state holds \<open>lib2\<close> only, and
  the logger installed next is called once, with \<open>lib2\<close>.
\<close>

theorem first_pending_batch_dropped:
  "fst (run example_callback [Submit lib1, Submit lib2, Install Logger] (fresh [])) = [Call Logger lib2] \<and>
   fst (run example_callback [Submit lib1, Submit lib2, Install Logger] (fresh []))
     \<noteq> [Call Logger lib1, Call Logger lib2] \<and>
   pending_implementors (snd (run example_callback [Submit lib1, Submit lib2] (fresh []))) = Some lib2 \<and>
   lib1 \<notin> set (pending_queue (snd (run example_callback [Submit lib1, Submit lib2] (fresh []))))"
  by (simp add: submit_def install_def pending_queue_def fresh_def example_callback_def
        lib1_def lib2_def)

subsection \<open>How often a batch is delivered\<close>







end
